theory Spec2Isabelle
  imports Complex_Main "HOL-Library.Multiset"
begin

section \<open>Strings as Go sees them\<close>

text \<open>
  A Go string is a sequence of bytes; \<open>len\<close>, slicing and \<open>strings.HasPrefix\<close> work on
  bytes. The model uses \<open>string\<close> (a list of 8-bit characters) and writes the library
  functions of package \<open>strings\<close> and \<open>strconv\<close> that the sources call as list functions.
  The Unicode-aware functions (\<open>TrimSpace\<close>, \<open>ToUpper\<close>, \<open>ToLower\<close>, \<open>Fields\<close>) are modelled on
  their ASCII range; bytes above 127 are left alone.
\<close>

definition str_HasPrefix :: "string \<Rightarrow> string \<Rightarrow> bool" where
  "str_HasPrefix s p = (take (length p) s = p)"

fun str_Contains :: "string \<Rightarrow> string \<Rightarrow> bool" where
  "str_Contains [] sub = (sub = [])"
| "str_Contains (c # cs) sub = (str_HasPrefix (c # cs) sub \<or> str_Contains cs sub)"

text \<open>
  \<open>strings.Split(s, sep)\<close> for a non-empty separator: the pieces between the
  non-overlapping occurrences of \<open>sep\<close>, found from the left. \<open>acc\<close> is the piece being read.
\<close>

fun split_acc :: "string \<Rightarrow> string \<Rightarrow> string \<Rightarrow> string list" where
  "split_acc sep acc [] = [acc]"
| "split_acc sep acc (c # cs) =
     (if str_HasPrefix (c # cs) sep
      then acc # split_acc sep [] (drop (length sep - 1) cs)
      else split_acc sep (acc @ [c]) cs)"

definition str_Split :: "string \<Rightarrow> string \<Rightarrow> string list" where
  "str_Split s sep = split_acc sep [] s"

definition is_digit :: "char \<Rightarrow> bool" where
  "is_digit c = (48 \<le> (of_char c :: nat) \<and> (of_char c :: nat) \<le> 57)"

definition digit_val :: "char \<Rightarrow> int" where
  "digit_val c = int (of_char c) - 48"

definition digits_val :: "string \<Rightarrow> int" where
  "digits_val s = foldl (\<lambda>n c. n * 10 + digit_val c) 0 s"

definition maxInt :: int where
  "maxInt = 9223372036854775807"

definition minInt :: int where
  "minInt = - 9223372036854775808"

text \<open>
  \<open>strconv.Atoi\<close> on a 64-bit platform returns a value and an error. The pair is
  (value, ok): a syntax error returns 0, a range error returns the nearest bound.
  An optional sign is accepted; underscores are not (base 10).
\<close>

definition Atoi :: "string \<Rightarrow> int \<times> bool" where
  "Atoi s =
     (let signed = (s \<noteq> [] \<and> (hd s = CHR ''-'' \<or> hd s = CHR ''+''));
          neg = (s \<noteq> [] \<and> hd s = CHR ''-'');
          body = (if signed then tl s else s)
      in if body = [] \<or> \<not> list_all is_digit body then (0, False)
         else let n = digits_val body; v = (if neg then - n else n)
              in if v > maxInt then (maxInt, False)
                 else if v < minInt then (minInt, False)
                 else (v, True))"

section \<open>Page specifiers (pdf/page\_utils.go)\<close>

datatype page_error =
    EmptySpecification
  | InvalidRange string
  | InvalidStartPage string
  | InvalidEndPage string
  | StartAfterEnd int int
  | InvalidPageNumber string

text \<open>
  A call either returns an error, returns a value, or does not return: the range loop
  \<open>for i := start; i <= end; i++\<close> never leaves when \<open>end\<close> is the largest int, since
  \<open>i++\<close> wraps around.
\<close>

datatype 'a outcome = Failed page_error | Returned 'a | NoReturn

definition re_space :: "char \<Rightarrow> bool" where
  "re_space c = (c = CHR '' '' \<or> c = CHR 0x09 \<or> c = CHR 0x0A \<or> c = CHR 0x0C \<or> c = CHR 0x0D)"

fun parse_parts :: "string list \<Rightarrow> int list \<Rightarrow> int list outcome" where
  "parse_parts [] pageList = Returned pageList"
| "parse_parts (part # rest) pageList =
     (if str_Contains part ''-'' then
        (let rangeParts = str_Split part ''-'' in
         if length rangeParts \<noteq> 2 then Failed (InvalidRange part)
         else case Atoi (rangeParts ! 0) of
           (start, False) \<Rightarrow> Failed (InvalidStartPage (rangeParts ! 0))
         | (start, True) \<Rightarrow>
            (case Atoi (rangeParts ! 1) of
               (end, False) \<Rightarrow> Failed (InvalidEndPage (rangeParts ! 1))
             | (end, True) \<Rightarrow>
                 if start > end then Failed (StartAfterEnd start end)
                 else if end = maxInt then NoReturn
                 else parse_parts rest (pageList @ [start..end])))
      else case Atoi part of
           (pageNum, False) \<Rightarrow> Failed (InvalidPageNumber part)
         | (pageNum, True) \<Rightarrow> parse_parts rest (pageList @ [pageNum]))"

definition ParsePageSpecifier :: "string \<Rightarrow> int list outcome" where
  "ParsePageSpecifier pages =
     (if pages = [] then Failed EmptySpecification
      else case parse_parts (str_Split (filter (\<lambda>c. \<not> re_space c) pages) '','') [] of
             Returned pageList \<Rightarrow> Returned (remdups_adj (sort pageList))
           | Failed e \<Rightarrow> Failed e
           | NoReturn \<Rightarrow> NoReturn)"

section \<open>Image-identifier prefixes (pdf/analyze.go)\<close>

definition extractIdPrefix :: "string \<Rightarrow> string" where
  "extractIdPrefix ident =
     (if str_HasPrefix ident ''Image-'' then ''Image''
      else if str_HasPrefix ident ''Img'' then ''Img''
      else if str_HasPrefix ident ''WM-'' \<or> str_HasPrefix ident ''Watermark'' then ''Watermark''
      else if str_Contains ident ''-'' \<and> length (str_Split ident ''-'') > 1
              \<and> length (str_Split ident ''-'' ! 0) > 0
           then str_Split ident ''-'' ! 0
      else if length ident \<ge> 3 then take (if length ident > 5 then 5 else 3) ident
      else ''unknown'')"

text \<open>More of package \<open>strings\<close>, on the ASCII range.\<close>

definition is_space :: "char \<Rightarrow> bool" where
  "is_space c = (c = CHR '' '' \<or> c = CHR 0x09 \<or> c = CHR 0x0A \<or> c = CHR 0x0B
                 \<or> c = CHR 0x0C \<or> c = CHR 0x0D)"

definition str_TrimSpace :: "string \<Rightarrow> string" where
  "str_TrimSpace s = rev (dropWhile is_space (rev (dropWhile is_space s)))"

definition to_upper_char :: "char \<Rightarrow> char" where
  "to_upper_char c =
     (if 97 \<le> (of_char c :: nat) \<and> (of_char c :: nat) \<le> 122
      then char_of ((of_char c :: nat) - 32) else c)"

definition to_lower_char :: "char \<Rightarrow> char" where
  "to_lower_char c =
     (if 65 \<le> (of_char c :: nat) \<and> (of_char c :: nat) \<le> 90
      then char_of ((of_char c :: nat) + 32) else c)"

definition str_ToUpper :: "string \<Rightarrow> string" where
  "str_ToUpper s = map to_upper_char s"

definition str_ToLower :: "string \<Rightarrow> string" where
  "str_ToLower s = map to_lower_char s"

text \<open>\<open>strings.Fields\<close>: the maximal runs of non-space bytes.\<close>

fun fields_acc :: "string \<Rightarrow> string \<Rightarrow> string list" where
  "fields_acc acc [] = (if acc = [] then [] else [acc])"
| "fields_acc acc (c # cs) =
     (if is_space c then (if acc = [] then fields_acc [] cs else acc # fields_acc [] cs)
      else fields_acc (acc @ [c]) cs)"

definition str_Fields :: "string \<Rightarrow> string list" where
  "str_Fields s = fields_acc [] s"

text \<open>\<open>strings.Index\<close> for a one-byte pattern, \<open>strings.LastIndex\<close> and
  \<open>strings.IndexAny\<close>: a position, or -1.\<close>

definition str_IndexByte :: "string \<Rightarrow> char \<Rightarrow> int" where
  "str_IndexByte s c =
     (if c \<in> set s then int (length (takeWhile (\<lambda>x. x \<noteq> c) s)) else - 1)"

definition str_LastIndex :: "string \<Rightarrow> string \<Rightarrow> int" where
  "str_LastIndex s sub =
     (case filter (\<lambda>i. str_HasPrefix (drop i s) sub) (rev [0..<Suc (length s)]) of
        [] \<Rightarrow> - 1
      | i # _ \<Rightarrow> int i)"

definition str_IndexAny :: "string \<Rightarrow> string \<Rightarrow> int" where
  "str_IndexAny s chars =
     (if list_ex (\<lambda>x. x \<in> set chars) s
      then int (length (takeWhile (\<lambda>x. x \<notin> set chars) s)) else - 1)"

text \<open>The verb \<open>%d\<close> of \<open>fmt.Sprintf\<close>, and \<open>strconv.Itoa\<close>.\<close>

definition digit_char :: "nat \<Rightarrow> char" where
  "digit_char d = ''0123456789'' ! d"

fun show_nat :: "nat \<Rightarrow> string" where
  "show_nat n =
     (if n < 10 then [digit_char n] else show_nat (n div 10) @ [digit_char (n mod 10)])"

definition show_int :: "int \<Rightarrow> string" where
  "show_int i = (if i < 0 then CHR ''-'' # show_nat (nat (- i)) else show_nat (nat i))"

section \<open>Candidates (pdf/analyze.go)\<close>

text \<open>
  A \<open>float64\<close> is modelled by its exact value: a rational, or plus infinity (a positive
  count divided by a page count of zero). Rounding to the nearest double is left out, so
  the model's \<open>0.95\<close> is the number 95/100.
\<close>

datatype float64 = Finite rat | PlusInf

record candidate =
  cType :: string
  cID :: string
  cPage :: int
  cDescription :: string
  cConfidence :: float64
  cMetadata :: "(string \<times> string) list"

text \<open>Reading a key of a Go \<open>map[string]string\<close>: the empty string when the key is absent.\<close>

definition md_get :: "(string \<times> string) list \<Rightarrow> string \<Rightarrow> string" where
  "md_get md k = (case map_of md k of None \<Rightarrow> [] | Some v \<Rightarrow> v)"

section \<open>The image table of \<open>pdfcpu images list\<close> (pdf/analyze.go)\<close>

record imageInfo =
  img_id :: string
  img_obj :: string
  img_width :: int
  img_height :: int
  img_size :: string
  img_softMask :: bool
  img_imgMask :: bool
  img_colorSpace :: string

record imageWithPage =
  iwp_img :: imageInfo
  iwp_page :: int

text \<open>The box-drawing column separator U+2502, as its three UTF-8 bytes.\<close>

definition box_sep :: string where
  "box_sep = [CHR 0xE2, CHR 0x94, CHR 0x82]"

text \<open>The regular expression \<open>\s{2,}\<close> as a splitter: the pieces between the maximal runs
  of two or more white-space bytes.\<close>

function split_spaces_acc :: "string \<Rightarrow> string \<Rightarrow> string list" where
  "split_spaces_acc acc [] = [acc]"
| "split_spaces_acc acc [c] = [acc @ [c]]"
| "split_spaces_acc acc (c # d # cs) =
     (if re_space c \<and> re_space d
      then acc # split_spaces_acc [] (dropWhile re_space cs)
      else split_spaces_acc (acc @ [c]) (d # cs))"
  by pat_completeness auto
termination
  by (relation "measure (\<lambda>(acc, s). length s)")
     (auto simp: less_Suc_eq_le intro: le_trans [OF length_dropWhile_le])

definition split_spaces :: "string \<Rightarrow> string list" where
  "split_spaces s = split_spaces_acc [] s"



definition clean_parts :: "string list \<Rightarrow> string list" where
  "clean_parts parts = filter (\<lambda>p. p \<noteq> []) (map str_TrimSpace parts)"


definition row_parts :: "string \<Rightarrow> string list" where
  "row_parts line =
     clean_parts
       (if str_Contains line box_sep then str_Split line box_sep
        else if str_Contains line ''|'' then str_Split line ''|''
        else if str_Contains line [CHR 0x09] then str_Split line [CHR 0x09]
        else split_spaces line)"

text \<open>The separator lines: \<open>^[\s\<bar>\-=_]+$\<close>, the class also holding U+2502.\<close>

fun only_separators :: "string \<Rightarrow> bool" where
  "only_separators [] = True"
| "only_separators (c # cs) =
     (if re_space c \<or> c = CHR ''|'' \<or> c = CHR ''-'' \<or> c = CHR ''='' \<or> c = CHR ''_''
      then only_separators cs
      else if str_HasPrefix (c # cs) box_sep then only_separators (drop 2 cs)
      else False)"

definition part_at :: "string list \<Rightarrow> nat \<Rightarrow> string" where
  "part_at parts i = (if i < length parts then parts ! i else [])"

definition size_like :: "string \<Rightarrow> bool" where
  "size_like p =
     (str_Contains (str_ToUpper p) ''KB'' \<or> str_Contains (str_ToUpper p) ''MB''
      \<or> str_Contains (str_ToUpper p) ''B'')"

definition size_like_long :: "string \<Rightarrow> bool" where
  "size_like_long p =
     (str_Contains (str_ToUpper p) ''KB'' \<or> str_Contains (str_ToUpper p) ''MB''
      \<or> (str_Contains (str_ToUpper p) ''B'' \<and> length p > 1))"

definition first_or_empty :: "string list \<Rightarrow> string" where
  "first_or_empty ps = (case ps of [] \<Rightarrow> [] | p # _ \<Rightarrow> p)"

text \<open>One accepted row (at least three fields): the page and the image, or nothing when
  the page does not parse to a non-zero number.\<close>

definition row_image :: "string list \<Rightarrow> (int \<times> imageInfo) option" where
  "row_image parts =
     (let pageStr = part_at parts 0;
          objStr = part_at parts 1;
          idStr = part_at parts 2;
          softMask = part_at parts 4;
          imgMask = part_at parts 5;
          widthStr = part_at parts 6;
          heightStr = part_at parts 7;
          colorSpace = part_at parts 8;
          sizeStr0 = (if length parts > 12 then parts ! 12
                      else if length parts > 8
                      then first_or_empty (filter size_like (drop 8 parts))
                      else []);
          page = fst (Atoi pageStr);
          sizeStr = (if sizeStr0 = [] then first_or_empty (filter size_like_long parts)
                     else sizeStr0)
      in if pageStr = [] \<or> idStr = [] then None
         else if page = 0 then None
         else Some (page,
                \<lparr>img_id = idStr, img_obj = objStr, img_width = fst (Atoi widthStr),
                 img_height = fst (Atoi heightStr), img_size = sizeStr,
                 img_softMask = (softMask = ''*''), img_imgMask = (imgMask = ''*''),
                 img_colorSpace = colorSpace\<rparr>))"

definition is_header :: "string \<Rightarrow> bool" where
  "is_header lineTrimmed =
     (str_Contains lineTrimmed ''Page''
      \<and> (str_Contains lineTrimmed ''Obj'' \<or> str_Contains lineTrimmed ''Type''
           \<or> str_Contains lineTrimmed ''Id'' \<or> str_Contains lineTrimmed ''ID''))"

definition is_summary :: "string \<Rightarrow> bool" where
  "is_summary lineTrimmed =
     (str_Contains (str_ToLower lineTrimmed) ''images available''
      \<or> str_Contains (str_ToLower lineTrimmed) ''total images''
      \<or> str_Contains (str_ToLower lineTrimmed) ''no images'')"

text \<open>The line loop. \<open>inTable\<close> and \<open>headerFound\<close> are set together; a summary line
  ends the loop. The result is the accepted rows in input order.\<close>

fun parse_image_lines :: "string list \<Rightarrow> bool \<Rightarrow> (int \<times> imageInfo) list" where
  "parse_image_lines [] headerFound = []"
| "parse_image_lines (line # rest) headerFound =
     (let lineTrimmed = str_TrimSpace line in
      if \<not> headerFound \<and> is_header lineTrimmed then parse_image_lines rest True
      else if \<not> headerFound \<or> lineTrimmed = [] then parse_image_lines rest headerFound
      else if is_summary lineTrimmed then []
      else if only_separators lineTrimmed then parse_image_lines rest headerFound
      else if length (row_parts line) < 3 then parse_image_lines rest headerFound
      else case row_image (row_parts line) of
             None \<Rightarrow> parse_image_lines rest headerFound
           | Some r \<Rightarrow> r # parse_image_lines rest headerFound)"

text \<open>A Go map whose values are slices, as an association list with distinct keys in
  the order of first insertion; \<open>m[k] = append(m[k], v)\<close> is \<open>map_append\<close>.\<close>

definition map_append :: "'k \<Rightarrow> 'v \<Rightarrow> ('k \<times> 'v list) list \<Rightarrow> ('k \<times> 'v list) list" where
  "map_append k v m =
     (if k \<in> set (map fst m)
      then map (\<lambda>(k', vs). if k' = k then (k', vs @ [v]) else (k', vs)) m
      else m @ [(k, [v])])"

definition map_lookup :: "('k \<times> 'v list) list \<Rightarrow> 'k \<Rightarrow> 'v list" where
  "map_lookup m k = (case map_of m k of None \<Rightarrow> [] | Some vs \<Rightarrow> vs)"

definition build_imagesByPage :: "(int \<times> imageInfo) list \<Rightarrow> (int \<times> imageInfo list) list" where
  "build_imagesByPage rows = foldl (\<lambda>m (page, img). map_append page img m) [] rows"

section \<open>File sizes and float formatting (pdf/analyze.go)\<close>

text \<open>The constants of the package (pdf/constants.go).\<close>

definition MinPageCoverageThreshold :: rat where
  "MinPageCoverageThreshold = 8 / 10"

definition MinWatermarkFileSizeKB :: rat where
  "MinWatermarkFileSizeKB = 30"

text \<open>Decimal strings at or above this bound (a whole number) are a range error of
  \<open>strconv.ParseFloat\<close>; products at or above it are plus infinity.\<close>

definition float_overflow :: int where
  "float_overflow = 2 ^ 1024 - 2 ^ 970"

definition overflows :: "rat \<Rightarrow> bool" where
  "overflows x = (\<lfloor>x\<rfloor> \<ge> float_overflow)"

definition to_float64 :: "rat \<Rightarrow> float64" where
  "to_float64 x = (if overflows x then PlusInf else Finite x)"

fun float_ge :: "float64 \<Rightarrow> rat \<Rightarrow> bool" where
  "float_ge (Finite x) r = (x \<ge> r)"
| "float_ge PlusInf r = True"

text \<open>\<open>float64(a) / float64(b)\<close> for a positive count \<open>a\<close>. The quotient is kept exact;
  since rounding to the nearest double is monotone and two different quotients of counts
  below \<open>10^15\<close> are never rounded to the same double as 0.8, the comparison with the
  coverage threshold comes out as in the source.\<close>

definition float_div :: "int \<Rightarrow> int \<Rightarrow> float64" where
  "float_div a b = (if b = 0 then PlusInf else Finite (of_int a / of_int b))"

text \<open>\<open>a + x * b\<close> for positive constants \<open>a\<close> and \<open>b\<close>.\<close>

fun float_scale_add :: "rat \<Rightarrow> rat \<Rightarrow> float64 \<Rightarrow> float64" where
  "float_scale_add a b (Finite x) = Finite (a + x * b)"
| "float_scale_add a b PlusInf = PlusInf"

definition is_num_char :: "char \<Rightarrow> bool" where
  "is_num_char c = (is_digit c \<or> c = CHR ''.'')"

text \<open>\<open>strconv.ParseFloat\<close> on a string of digits and dots: digits with at most one
  dot and at least one digit.\<close>

definition parse_decimal :: "string \<Rightarrow> rat option" where
  "parse_decimal numStr =
     (let intPart = takeWhile is_digit numStr;
          rest = dropWhile is_digit numStr
      in if rest = [] then (if intPart = [] then None else Some (of_int (digits_val intPart)))
         else if \<not> list_all is_digit (tl rest) \<or> (intPart = [] \<and> tl rest = []) then None
         else Some (of_int (digits_val (intPart @ tl rest)) / 10 ^ length (tl rest)))"

definition parseFileSizeKB :: "string \<Rightarrow> float64" where
  "parseFileSizeKB sizeStr =
     (let s = filter (\<lambda>c. c \<noteq> CHR '' '')
                (filter (\<lambda>c. c \<noteq> CHR '','') (str_TrimSpace (str_ToUpper sizeStr)));
          numStr = takeWhile is_num_char s;
          unit = dropWhile is_num_char s
      in if numStr = [] then Finite 0
         else case parse_decimal numStr of
                None \<Rightarrow> Finite 0
              | Some num \<Rightarrow>
                  if overflows num then Finite 0
                  else if str_HasPrefix unit ''KB'' \<or> str_HasPrefix unit ''K'' then Finite num
                  else if str_HasPrefix unit ''MB'' \<or> str_HasPrefix unit ''M''
                  then to_float64 (num * 1024)
                  else if str_HasPrefix unit ''GB'' \<or> str_HasPrefix unit ''G''
                  then to_float64 (num * 1024 * 1024)
                  else Finite (num / 1024))"

text \<open>The verbs \<open>%.0f\<close> and \<open>%.1f\<close>: the nearest decimal, a tie going to the even digit.\<close>

definition round_half_even :: "rat \<Rightarrow> nat" where
  "round_half_even x =
     (let f = \<lfloor>x\<rfloor>; d = x - of_int f
      in nat (if d < 1 / 2 then f else if d > 1 / 2 then f + 1
              else if even f then f else f + 1))"

fun fmt_f0 :: "float64 \<Rightarrow> string" where
  "fmt_f0 (Finite x) =
     (if x < 0 then CHR ''-'' # show_nat (round_half_even (- x))
      else show_nat (round_half_even x))"
| "fmt_f0 PlusInf = ''+Inf''"

fun fmt_f1 :: "float64 \<Rightarrow> string" where
  "fmt_f1 (Finite x) =
     (if x < 0 then ''-'' else [])
     @ show_nat (round_half_even (\<bar>x\<bar> * 10) div 10) @ ''.''
     @ show_nat (round_half_even (\<bar>x\<bar> * 10) mod 10)"
| "fmt_f1 PlusInf = ''+Inf''"

fun float_times :: "float64 \<Rightarrow> rat \<Rightarrow> float64" where
  "float_times (Finite x) r = Finite (x * r)"
| "float_times PlusInf r = PlusInf"

section \<open>Candidate detection (pdf/analyze.go)\<close>

text \<open>
  Go iterates over a map in an order it does not fix. Each \<open>range\<close> over a map takes its
  order from \<open>map_orders\<close>: a function from the entries to the entries in the order of
  this run. An order is valid when it only permutes.
\<close>

record map_orders =
  page_order :: "(int \<times> imageInfo list) list \<Rightarrow> (int \<times> imageInfo list) list"
  prefix_order ::
    "(string \<times> imageWithPage list) list \<Rightarrow> (string \<times> imageWithPage list) list"
  size_order ::
    "(string \<times> imageWithPage list) list \<Rightarrow> (string \<times> imageWithPage list) list"
  sig_order :: "(string \<times> int list) list \<Rightarrow> (string \<times> int list) list"

definition valid_orders :: "map_orders \<Rightarrow> bool" where
  "valid_orders ord =
     ((\<forall>m. mset (page_order ord m) = mset m) \<and> (\<forall>m. mset (prefix_order ord m) = mset m)
      \<and> (\<forall>m. mset (size_order ord m) = mset m) \<and> (\<forall>m. mset (sig_order ord m) = mset m))"

definition insertion_orders :: map_orders where
  "insertion_orders =
     \<lparr>page_order = (\<lambda>m. m), prefix_order = (\<lambda>m. m), size_order = (\<lambda>m. m),
      sig_order = (\<lambda>m. m)\<rparr>"

definition reversed_orders :: map_orders where
  "reversed_orders =
     \<lparr>page_order = rev, prefix_order = rev, size_order = rev, sig_order = rev\<rparr>"

text \<open>\<open>int(float64(totalPages) * MinPageCoverageThreshold)\<close>: the conversion truncates
  towards zero. The double nearest to 0.8 exceeds it by a relative \<open>2^-54\<close>, which the
  product rounds away when four fifths of the page count is a whole number and which
  cannot reach the next whole number otherwise, so the result is the truncated exact
  product.\<close>

definition min_pages :: "int \<Rightarrow> int" where
  "min_pages totalPages =
     (if totalPages \<ge> 0 then (8 * totalPages) div 10 else - ((8 * (- totalPages)) div 10))"

definition empty_image :: imageInfo where
  "empty_image =
     \<lparr>img_id = [], img_obj = [], img_width = 0, img_height = 0, img_size = [],
      img_softMask = False, img_imgMask = False, img_colorSpace = []\<rparr>"

definition image_signature :: "imageInfo \<Rightarrow> string \<Rightarrow> string" where
  "image_signature img prefix =
     show_int (img_width img) @ ''x'' @ show_int (img_height img) @ ''_''
     @ img_colorSpace img @ ''_'' @ img_size img @ ''_prefix:'' @ prefix"

definition test_signature :: "imageInfo \<Rightarrow> string" where
  "test_signature img =
     show_int (img_width img) @ ''x'' @ show_int (img_height img) @ ''_''
     @ img_colorSpace img @ ''_'' @ img_size img"

definition show_bool :: "bool \<Rightarrow> string" where
  "show_bool b = (if b then ''true'' else ''false'')"

definition quote :: string where
  "quote = [CHR 0x27]"

text \<open>The representative of a size group: the first image whose id is not empty.\<close>

definition representative :: "imageWithPage list \<Rightarrow> imageInfo" where
  "representative sizeGroup =
     foldl (\<lambda>rep imgPage. if img_id rep = [] then iwp_img imgPage else rep)
       empty_image sizeGroup"

definition pages_covered :: "imageWithPage list \<Rightarrow> int" where
  "pages_covered sizeGroup = int (length (remdups (map iwp_page sizeGroup)))"

text \<open>Pass A, the body of the loop over the size groups of one prefix.\<close>

definition size_group_candidates ::
  "string \<Rightarrow> int \<Rightarrow> string \<times> imageWithPage list \<Rightarrow> candidate list" where
  "size_group_candidates prefix totalPages g =
     (case g of (sizeKey, sizeGroup) \<Rightarrow>
        if int (length sizeGroup) < totalPages then []
        else
          (let representativeImg = representative sizeGroup;
               coverageCount = pages_covered sizeGroup;
               coveragePercent = float_div coverageCount totalPages
           in if float_ge coveragePercent MinPageCoverageThreshold then
                (let signature = image_signature representativeImg prefix;
                     confidence = (if coverageCount = totalPages then Finite (95 / 100)
                                   else float_scale_add (80 / 100) (15 / 100) coveragePercent);
                     coverageStr = (if coverageCount = totalPages then ''100%''
                                    else fmt_f0 (float_times coveragePercent 100) @ ''%'');
                     candidateType = (if coverageCount = totalPages then ''fullpage_watermark''
                                      else ''repeating_watermark'')
                 in [\<lparr>cType = ''image'',
                      cID = candidateType @ ''_'' @ prefix @ ''_'' @ sizeKey,
                      cPage = 0,
                      cDescription =
                        ''Unwanted element (prefix '' @ quote @ prefix @ quote @ ''): size ''
                        @ show_int (img_width representativeImg) @ ''x''
                        @ show_int (img_height representativeImg) @ '' (''
                        @ img_colorSpace representativeImg @ ''), file size '' @ sizeKey
                        @ '', appears on '' @ show_int coverageCount @ ''/''
                        @ show_int totalPages @ '' pages ('' @ coverageStr @ '')'',
                      cConfidence = confidence,
                      cMetadata =
                        [(''signature'', signature),
                         (''prefix'', prefix),
                         (''file_size_kb'',
                            fmt_f1 (parseFileSizeKB (img_size representativeImg))),
                         (''page_count'', show_int coverageCount),
                         (''total_pages'', show_int totalPages),
                         (''coverage'', coverageStr),
                         (''type'', candidateType),
                         (''soft_mask'', show_bool (img_softMask representativeImg)),
                         (''image_mask'', show_bool (img_imgMask representativeImg)),
                         (''object'', img_obj representativeImg),
                         (''image_id'', img_id representativeImg)]\<rparr>])
              else []))"

definition size_key :: "imageWithPage \<Rightarrow> string" where
  "size_key imgPage = fmt_f0 (parseFileSizeKB (img_size (iwp_img imgPage))) @ ''KB''"

definition big_enough :: "imageWithPage \<Rightarrow> bool" where
  "big_enough imgPage =
     float_ge (parseFileSizeKB (img_size (iwp_img imgPage))) MinWatermarkFileSizeKB"

definition size_groups :: "imageWithPage list \<Rightarrow> (string \<times> imageWithPage list) list" where
  "size_groups images =
     foldl (\<lambda>m imgPage. if big_enough imgPage then map_append (size_key imgPage) imgPage m
                          else m) [] images"

definition prefix_group_candidates ::
  "map_orders \<Rightarrow> int \<Rightarrow> string \<times> imageWithPage list \<Rightarrow> candidate list" where
  "prefix_group_candidates ord totalPages g =
     (case g of (prefix, images) \<Rightarrow>
        if int (length images) < min_pages totalPages then []
        else if length (size_groups images) = 0 then []
        else concat (map (size_group_candidates prefix totalPages)
                       (size_order ord (size_groups images))))"

definition detectFullPageUnwantedElements ::
  "map_orders \<Rightarrow> (string \<times> imageWithPage list) list \<Rightarrow> int \<Rightarrow> candidate list" where
  "detectFullPageUnwantedElements ord imagesByPrefix totalPages =
     concat (map (prefix_group_candidates ord totalPages) (prefix_order ord imagesByPrefix))"

text \<open>\<open>hasContinuousRange\<close>: the longest run of consecutive page numbers in the slice as
  it stands (it is not sorted), counted by the loop of the source: \<open>currentContinuous\<close>
  starts at 1 and \<open>maxContinuous\<close> at 0. \<open>pages[i-1]+1\<close> wraps around at the largest int.\<close>

definition succ64 :: "int \<Rightarrow> int" where
  "succ64 p = (if p = maxInt then minInt else p + 1)"

fun continuous_scan :: "int \<Rightarrow> int list \<Rightarrow> int \<Rightarrow> int \<Rightarrow> int" where
  "continuous_scan prev [] currentContinuous maxContinuous = maxContinuous"
| "continuous_scan prev (p # ps) currentContinuous maxContinuous =
     (if p = succ64 prev
      then continuous_scan p ps (currentContinuous + 1)
             (if currentContinuous + 1 > maxContinuous then currentContinuous + 1
              else maxContinuous)
      else continuous_scan p ps 1 maxContinuous)"

definition hasContinuousRange :: "int list \<Rightarrow> int \<Rightarrow> bool" where
  "hasContinuousRange pages minLength =
     (if int (length pages) < minLength then False
      else case pages of
             [] \<Rightarrow> 0 \<ge> minLength
           | p # ps \<Rightarrow> continuous_scan p ps 1 0 \<ge> minLength)"

fun float_plus :: "float64 \<Rightarrow> rat \<Rightarrow> float64" where
  "float_plus (Finite x) r = Finite (x + r)"
| "float_plus PlusInf r = PlusInf"

fun float_cap1 :: "float64 \<Rightarrow> float64" where
  "float_cap1 (Finite x) = (if x > 1 then Finite 1 else Finite x)"
| "float_cap1 PlusInf = Finite 1"

definition calculateRepeatingUnwantedElementConfidence ::
  "imageInfo \<Rightarrow> int \<Rightarrow> int \<Rightarrow> float64" where
  "calculateRepeatingUnwantedElementConfidence img pageCount totalPages =
     (let c0 = float_scale_add (4 / 10) (6 / 10) (float_div pageCount totalPages);
          c1 = (if img_width img > 300 \<or> img_height img > 400 then float_plus c0 (15 / 100)
                else c0);
          c2 = (if img_width img > 500 \<or> img_height img > 700 then float_plus c1 (15 / 100)
                else c1);
          c3 = (if img_softMask img then float_plus c2 (5 / 100) else c2)
      in float_cap1 c3)"

text \<open>Pass B looks for the representative among the images of the first page of the
  signature, comparing the signature with a string built without the prefix part.\<close>

definition first_image :: "(int \<times> imageInfo list) list \<Rightarrow> string \<Rightarrow> int \<Rightarrow> imageInfo" where
  "first_image imagesByPage signature firstPage =
     (case filter (\<lambda>img. test_signature img = signature) (map_lookup imagesByPage firstPage) of
        [] \<Rightarrow> empty_image
      | img # _ \<Rightarrow> img)"

text \<open>Pass B, the body of the loop over the signatures. A signature always has at
  least one page, so \<open>pages[0]\<close> is there; every signature is longer than 8 bytes.\<close>

definition signature_candidates ::
  "(int \<times> imageInfo list) list \<Rightarrow> int \<Rightarrow> string list \<Rightarrow> string \<times> int list
     \<Rightarrow> candidate list" where
  "signature_candidates imagesByPage totalPages handledSignatures g =
     (case g of (signature, pages) \<Rightarrow>
        if signature \<in> set handledSignatures then []
        else if int (length pages) \<ge> min_pages totalPages
                \<or> hasContinuousRange pages (min_pages totalPages) then
          (case pages of
             [] \<Rightarrow> []
           | firstPage # _ \<Rightarrow>
              (let firstImg = first_image imagesByPage signature firstPage;
                   confidence = calculateRepeatingUnwantedElementConfidence firstImg
                                  (int (length pages)) totalPages;
                   prefix = extractIdPrefix (img_id firstImg);
                   description =
                     (if prefix \<noteq> ''unknown'' \<and> prefix \<noteq> []
                      then ''Repeating unwanted element image (prefix '' @ quote @ prefix
                           @ quote @ ''): size '' @ show_int (img_width firstImg) @ ''x''
                           @ show_int (img_height firstImg) @ '' (''
                           @ img_colorSpace firstImg @ ''), file size '' @ img_size firstImg
                           @ '', appears on '' @ show_int (int (length pages)) @ ''/''
                           @ show_int totalPages @ '' pages''
                      else ''Repeating unwanted element image: size ''
                           @ show_int (img_width firstImg) @ ''x''
                           @ show_int (img_height firstImg) @ '' (''
                           @ img_colorSpace firstImg @ ''), appears on ''
                           @ show_int (int (length pages)) @ ''/'' @ show_int totalPages
                           @ '' pages ('' @ img_size firstImg @ '')'')
               in [\<lparr>cType = ''image'',
                    cID = ''repeating_unwanted_element_'' @ take 8 signature,
                    cPage = 0,
                    cDescription = description,
                    cConfidence = confidence,
                    cMetadata =
                      [(''signature'', signature),
                       (''page_count'', show_int (int (length pages))),
                       (''max_pages'', show_int totalPages),
                       (''prefix'', prefix),
                       (''soft_mask'', show_bool (img_softMask firstImg)),
                       (''image_mask'', show_bool (img_imgMask firstImg)),
                       (''type'', ''repeating_unwanted_element''),
                       (''object'', img_obj firstImg),
                       (''image_id'', img_id firstImg)]\<rparr>]))
        else [])"

text \<open>The grouping loop over \<open>imagesByPage\<close>: the images with their pages, in the order
  in which this run visits the pages.\<close>

definition images_in_order ::
  "map_orders \<Rightarrow> (int \<times> imageInfo list) list \<Rightarrow> imageWithPage list" where
  "images_in_order ord imagesByPage =
     concat (map (\<lambda>(page, imgs). map (\<lambda>img. \<lparr>iwp_img = img, iwp_page = page\<rparr>) imgs)
               (page_order ord imagesByPage))"

definition build_imageSignatures :: "imageWithPage list \<Rightarrow> (string \<times> int list) list" where
  "build_imageSignatures flat =
     foldl (\<lambda>m imgPage.
              map_append
                (image_signature (iwp_img imgPage) (extractIdPrefix (img_id (iwp_img imgPage))))
                (iwp_page imgPage) m) [] flat"

definition build_imagesByPrefix ::
  "imageWithPage list \<Rightarrow> (string \<times> imageWithPage list) list" where
  "build_imagesByPrefix flat =
     foldl (\<lambda>m imgPage.
              if extractIdPrefix (img_id (iwp_img imgPage)) \<noteq> ''unknown''
              then map_append (extractIdPrefix (img_id (iwp_img imgPage))) imgPage m
              else m) [] flat"

text \<open>Pass A of one run, from the parsed table.\<close>

definition pass_A :: "map_orders \<Rightarrow> (int \<times> imageInfo list) list \<Rightarrow> int \<Rightarrow> candidate list" where
  "pass_A ord imagesByPage totalPages =
     detectFullPageUnwantedElements ord
       (build_imagesByPrefix (images_in_order ord imagesByPage)) totalPages"

text \<open>Pass B of one run: the signatures that Pass A did not claim.\<close>

definition pass_B :: "map_orders \<Rightarrow> (int \<times> imageInfo list) list \<Rightarrow> int \<Rightarrow> candidate list" where
  "pass_B ord imagesByPage totalPages =
     concat (map (signature_candidates imagesByPage totalPages
                    (map (\<lambda>c. md_get (cMetadata c) ''signature'')
                       (pass_A ord imagesByPage totalPages)))
               (sig_order ord (build_imageSignatures (images_in_order ord imagesByPage))))"

definition analyze_table ::
  "map_orders \<Rightarrow> (int \<times> imageInfo list) list \<Rightarrow> int \<Rightarrow> candidate list" where
  "analyze_table ord imagesByPage totalPages =
     pass_A ord imagesByPage totalPages @ pass_B ord imagesByPage totalPages"

text \<open>\<open>analyzeImages\<close> on the output of a successful \<open>pdfcpu images list\<close>. The debug
  messages, which do not reach the candidates, are left out.\<close>

definition analyzeImages :: "map_orders \<Rightarrow> string \<Rightarrow> int \<Rightarrow> candidate list" where
  "analyzeImages ord output totalPages =
     analyze_table ord
       (build_imagesByPage (parse_image_lines (str_Split output [CHR 0x0A]) False))
       totalPages"

text \<open>
  The prefix rule as the specification words it: the known literals first; else the text
  before the first \<open>-\<close> or \<open>_\<close> when that text is not empty; else the first three (five for
  identifiers longer than five bytes) bytes; else \<open>unknown\<close>.
\<close>

definition known_literal :: "string \<Rightarrow> bool" where
  "known_literal ident =
     (str_HasPrefix ident ''Image-'' \<or> str_HasPrefix ident ''Img''
      \<or> str_HasPrefix ident ''WM-'' \<or> str_HasPrefix ident ''Watermark'')"

definition is_delim :: "char \<Rightarrow> bool" where
  "is_delim c = (c = CHR ''-'' \<or> c = CHR ''_'')"

definition spec_prefix :: "string \<Rightarrow> string" where
  "spec_prefix ident =
     (if list_ex is_delim ident \<and> takeWhile (\<lambda>c. \<not> is_delim c) ident \<noteq> []
      then takeWhile (\<lambda>c. \<not> is_delim c) ident
      else if length ident \<ge> 3 then take (if length ident > 5 then 5 else 3) ident
      else ''unknown'')"




section \<open>Example documents\<close>

definition table_header :: string where
  "table_header =
     ''Page | Obj | Id | Type | SoftMask | ImgMask | Width | Height | ColorSpace | Comp | bpc | Interp | Size''"

text \<open>One row of the listing, in the pipe style.\<close>

definition table_row :: "string \<Rightarrow> string \<Rightarrow> string \<Rightarrow> string \<Rightarrow> string \<Rightarrow> string \<Rightarrow> string" where
  "table_row page obj ident width height sz =
     page @ '' | '' @ obj @ '' | '' @ ident @ '' | image | - | - | '' @ width @ '' | ''
     @ height @ '' | DeviceRGB | 3 | 8 | - | '' @ sz"

definition listing :: "string list \<Rightarrow> string" where
  "listing rows = foldl (\<lambda>text row. text @ [CHR 0x0A] @ row) table_header rows"

text \<open>Five pages; the same 35KB logo on pages 1 to 4, that is on 80 percent of them.\<close>

definition doc_logo_4_of_5 :: string where
  "doc_logo_4_of_5 =
     listing [table_row ''1'' ''11'' ''Logo-1'' ''640'' ''480'' ''35KB'',
              table_row ''2'' ''12'' ''Logo-2'' ''640'' ''480'' ''35KB'',
              table_row ''3'' ''13'' ''Logo-3'' ''640'' ''480'' ''35KB'',
              table_row ''4'' ''14'' ''Logo-4'' ''640'' ''480'' ''35KB'']"

text \<open>Two pages with the same small image on each.\<close>

definition doc_small_2_of_2 :: string where
  "doc_small_2_of_2 =
     listing [table_row ''1'' ''21'' ''Pic-1'' ''64'' ''48'' ''5KB'',
              table_row ''2'' ''22'' ''Pic-2'' ''64'' ''48'' ''5KB'']"

text \<open>Two pages; images of one prefix and one size key, with different dimensions.\<close>

definition doc_two_dims :: string where
  "doc_two_dims =
     listing [table_row ''1'' ''31'' ''Im-1'' ''100'' ''100'' ''35KB'',
              table_row ''2'' ''32'' ''Im-2'' ''200'' ''200'' ''35KB'']"

text \<open>Three pages with the same image on each.\<close>

definition doc_three_pages :: string where
  "doc_three_pages =
     listing [table_row ''1'' ''41'' ''Im-1'' ''100'' ''100'' ''5KB'',
              table_row ''2'' ''42'' ''Im-2'' ''100'' ''100'' ''5KB'',
              table_row ''3'' ''43'' ''Im-3'' ''100'' ''100'' ''5KB'']"

definition parsed_table :: "string \<Rightarrow> (int \<times> imageInfo list) list" where
  "parsed_table output =
     build_imagesByPage (parse_image_lines (str_Split output [CHR 0x0A]) False)"

section \<open>Removal by candidate IDs (pdf/remove\_elements.go)\<close>

record imageOccurrence =
  occ_page :: int
  occ_obj :: string
  occ_id :: string

text \<open>The messages of \<open>log.Printf\<close>, by their format string and arguments.\<close>

datatype log_msg =
    LogFoundExact nat string string
  | LogFoundByPrefix nat string string
  | LogAttemptSignature string string string
  | LogExtractedPrefix string string
  | LogFoundBySignature nat string string
  | LogTotalOccurrences string nat
  | LogWarningNoOccurrences string string string
  | LogTryingStampRemove
  | LogStampOutput string
  | LogWatermarkOutput string

text \<open>The table loop over the lines of \<open>pdfcpu images list\<close>: \<open>inTable\<close> and
  \<open>headerFound\<close> are set together, so one flag stands for both.\<close>

fun parse_occurrence_lines :: "string list \<Rightarrow> bool \<Rightarrow> imageOccurrence list" where
  "parse_occurrence_lines [] headerFound = []"
| "parse_occurrence_lines (line # rest) headerFound =
     (let lineTrimmed = str_TrimSpace line in
      if lineTrimmed = [] then parse_occurrence_lines rest headerFound
      else if \<not> headerFound
              \<and> (str_Contains lineTrimmed ''Page'' \<or> str_Contains lineTrimmed ''ID'')
           then parse_occurrence_lines rest True
      else if \<not> headerFound then parse_occurrence_lines rest headerFound
      else let parts = str_Fields lineTrimmed in
           if length parts < 3 then parse_occurrence_lines rest headerFound
           else case Atoi (parts ! 0) of
                  (page, ok) \<Rightarrow>
                    if \<not> ok \<or> page = 0 \<or> parts ! 2 = []
                    then parse_occurrence_lines rest headerFound
                    else \<lparr>occ_page = page, occ_obj = parts ! 1, occ_id = parts ! 2\<rparr>
                         # parse_occurrence_lines rest headerFound)"

definition parse_occurrences :: "string \<Rightarrow> imageOccurrence list" where
  "parse_occurrences output = parse_occurrence_lines (str_Split output [CHR 0x0A]) False"

text \<open>The map \<open>imageOccurrences\<close>: image id to its occurrences, in table order.\<close>

fun add_occurrences ::
  "imageOccurrence list \<Rightarrow> (string \<rightharpoonup> imageOccurrence list)
     \<Rightarrow> (string \<rightharpoonup> imageOccurrence list)" where
  "add_occurrences [] m = m"
| "add_occurrences (occ # rest) m =
     add_occurrences rest
       (m(occ_id occ \<mapsto> (case m (occ_id occ) of None \<Rightarrow> [] | Some l \<Rightarrow> l) @ [occ]))"

definition extractPrefix :: "string \<Rightarrow> string" where
  "extractPrefix ident =
     (if str_IndexByte ident CHR ''-'' > 0
      then take (nat (str_IndexByte ident CHR ''-'' + 1)) ident
      else if str_IndexByte ident CHR ''_'' > 0
      then take (nat (str_IndexByte ident CHR ''_'' + 1)) ident
      else [])"

text \<open>Strategy 1: the occurrences stored under the exact image id.\<close>

definition strategy_exact ::
  "(string \<rightharpoonup> imageOccurrence list) \<Rightarrow> string \<Rightarrow> imageOccurrence list" where
  "strategy_exact imageOccurrences imgID =
     (if imgID \<noteq> []
      then (case imageOccurrences imgID of Some occurrences \<Rightarrow> occurrences | None \<Rightarrow> [])
      else [])"

text \<open>Strategy 2: every occurrence whose id starts with the prefix, or whose own
  extracted prefix is the prefix.\<close>

definition prefix_matches :: "string \<Rightarrow> imageOccurrence \<Rightarrow> bool" where
  "prefix_matches prefix occ =
     (str_HasPrefix (occ_id occ) prefix
      \<or> str_HasPrefix (occ_id occ) (prefix @ ''-'')
      \<or> str_HasPrefix (occ_id occ) (prefix @ ''_'')
      \<or> extractPrefix (occ_id occ) = prefix)"

definition strategy_prefix ::
  "imageOccurrence list \<Rightarrow> string \<Rightarrow> imageOccurrence list \<Rightarrow> imageOccurrence list" where
  "strategy_prefix allImageOccurrences prefix foundOccurrences =
     (if length foundOccurrences = 0 \<and> prefix \<noteq> []
      then foundOccurrences @ filter (prefix_matches prefix) allImageOccurrences
      else foundOccurrences)"

text \<open>Strategy 3: the prefix read back from the signature, matched without case.\<close>

definition signature_prefix :: "string \<Rightarrow> string" where
  "signature_prefix signature =
     (let prefixIdx = str_LastIndex signature ''prefix:'' in
      if prefixIdx \<ge> 0 then
        (let sigPrefix = str_TrimSpace (drop (nat (prefixIdx + 7)) signature);
             spaceIdx = str_IndexAny sigPrefix [CHR '' '', CHR 0x09, CHR 0x0A]
         in if spaceIdx > 0 then take (nat spaceIdx) sigPrefix else sigPrefix)
      else [])"

definition signature_matches :: "string \<Rightarrow> imageOccurrence \<Rightarrow> bool" where
  "signature_matches prefix occ =
     (let prefixLower = str_ToLower prefix;
          prefixUpper = str_ToUpper prefix;
          prefixTitle = str_ToUpper (take 1 prefix) @ str_ToLower (drop 1 prefix);
          occIDLower = str_ToLower (occ_id occ);
          occPrefixLower = str_ToLower (extractPrefix (occ_id occ))
      in str_HasPrefix occIDLower prefixLower
         \<or> str_HasPrefix occIDLower (prefixLower @ ''-'')
         \<or> str_HasPrefix occIDLower (prefixLower @ ''_'')
         \<or> occPrefixLower = prefixLower \<or> str_HasPrefix occPrefixLower prefixLower
         \<or> (prefixTitle \<noteq> []
              \<and> (str_HasPrefix (occ_id occ) prefixTitle
                  \<or> str_HasPrefix (occ_id occ) (prefixTitle @ ''-'')
                  \<or> str_HasPrefix (occ_id occ) (prefixTitle @ ''_'')))
         \<or> (prefixUpper \<noteq> []
              \<and> (str_HasPrefix (occ_id occ) prefixUpper
                  \<or> str_HasPrefix (occ_id occ) (prefixUpper @ ''-'')
                  \<or> str_HasPrefix (occ_id occ) (prefixUpper @ ''_''))))"

text \<open>The prefix after strategy 3 has looked at the signature (the variable \<open>prefix\<close> is
  overwritten there, and the warning prints it).\<close>

definition prefix_after_signature :: "string \<Rightarrow> string \<Rightarrow> string" where
  "prefix_after_signature signature prefix =
     (if signature_prefix signature \<noteq> [] then signature_prefix signature else prefix)"

definition strategy_signature ::
  "imageOccurrence list \<Rightarrow> string \<Rightarrow> string \<Rightarrow> imageOccurrence list
     \<Rightarrow> imageOccurrence list" where
  "strategy_signature allImageOccurrences signature prefix foundOccurrences =
     (if length foundOccurrences = 0 \<and> signature \<noteq> []
         \<and> prefix_after_signature signature prefix \<noteq> []
         \<and> prefix_after_signature signature prefix \<noteq> ''unknown''
      then foundOccurrences
           @ filter (signature_matches (prefix_after_signature signature prefix))
               allImageOccurrences
      else foundOccurrences)"

text \<open>Strategy 4: one occurrence, by image id at the candidate's page, or by object at
  that page when no image id is stored.\<close>

definition strategy_single ::
  "imageOccurrence list \<Rightarrow> int \<Rightarrow> string \<Rightarrow> string \<Rightarrow> imageOccurrence list
     \<Rightarrow> imageOccurrence list" where
  "strategy_single allImageOccurrences page objNr imgID foundOccurrences =
     (if length foundOccurrences = 0 \<and> objNr \<noteq> [] \<and> page > 0
      then (if imgID \<noteq> []
            then foundOccurrences
                 @ take 1 (filter (\<lambda>occ. occ_id occ = imgID \<and> occ_page occ = page)
                             allImageOccurrences)
            else foundOccurrences
                 @ take 1 (filter (\<lambda>occ. occ_obj occ = objNr \<and> occ_page occ = page)
                             allImageOccurrences))
      else foundOccurrences)"

text \<open>The body of the candidate loop for one selected candidate: the occurrences found
  after each strategy, and the messages logged.\<close>

definition found_after_exact :: "imageOccurrence list \<Rightarrow> candidate \<Rightarrow> imageOccurrence list" where
  "found_after_exact allImageOccurrences c =
     strategy_exact (add_occurrences allImageOccurrences Map.empty)
       (md_get (cMetadata c) ''image_id'')"

definition found_after_prefix :: "imageOccurrence list \<Rightarrow> candidate \<Rightarrow> imageOccurrence list" where
  "found_after_prefix allImageOccurrences c =
     strategy_prefix allImageOccurrences (md_get (cMetadata c) ''prefix'')
       (found_after_exact allImageOccurrences c)"

definition found_after_signature ::
  "imageOccurrence list \<Rightarrow> candidate \<Rightarrow> imageOccurrence list" where
  "found_after_signature allImageOccurrences c =
     strategy_signature allImageOccurrences (md_get (cMetadata c) ''signature'')
       (md_get (cMetadata c) ''prefix'') (found_after_prefix allImageOccurrences c)"

definition resolve_occurrences :: "imageOccurrence list \<Rightarrow> candidate \<Rightarrow> imageOccurrence list" where
  "resolve_occurrences allImageOccurrences c =
     strategy_single allImageOccurrences (cPage c) (md_get (cMetadata c) ''object'')
       (md_get (cMetadata c) ''image_id'') (found_after_signature allImageOccurrences c)"

definition resolve_logs :: "imageOccurrence list \<Rightarrow> candidate \<Rightarrow> log_msg list" where
  "resolve_logs allImageOccurrences c =
     (let imgID = md_get (cMetadata c) ''image_id'';
          prefix = md_get (cMetadata c) ''prefix'';
          signature = md_get (cMetadata c) ''signature'';
          f1 = found_after_exact allImageOccurrences c;
          f2 = found_after_prefix allImageOccurrences c;
          f3 = found_after_signature allImageOccurrences c;
          f4 = resolve_occurrences allImageOccurrences c;
          tried3 = (length f2 = 0 \<and> signature \<noteq> []);
          prefix3 = (if tried3 then prefix_after_signature signature prefix else prefix)
      in (if f1 \<noteq> [] then [LogFoundExact (length f1) imgID (cID c)] else [])
         @ (if length f1 = 0 \<and> prefix \<noteq> [] \<and> length f2 > 0
            then [LogFoundByPrefix (length f2) prefix (cID c)] else [])
         @ (if tried3 then [LogAttemptSignature (cID c) signature prefix] else [])
         @ (if tried3 \<and> signature_prefix signature \<noteq> []
            then [LogExtractedPrefix (signature_prefix signature) (cID c)] else [])
         @ (if tried3 \<and> prefix3 \<noteq> [] \<and> prefix3 \<noteq> ''unknown'' \<and> length f3 > 0
            then [LogFoundBySignature (length f3) prefix3 (cID c)] else [])
         @ (if length f4 > 0 then [LogTotalOccurrences (cID c) (length f4)]
            else [LogWarningNoOccurrences (cID c) imgID prefix3]))"

text \<open>
  The outside world. The calls into pdfcpu and the file system are answered by an
  environment, and every call made is recorded in a trace, in order.
  \<open>analysis_result\<close> is what \<open>AnalyzeUnwantedElements(inFile)\<close> returned: its image
  candidates, or \<open>None\<close> for an error. A command result is its combined output and
  whether it succeeded.
\<close>

datatype file_path = InFile | OutFile | TempFile nat | BlankImage

datatype action =
    RunWatermarkRemove
  | RunStampRemove
  | RunAnalyze
  | RunImagesList
  | CreateBlankImage
  | RunImagesUpdate file_path file_path string
  | RemoveFile file_path

record environment =
  watermark_remove :: "string \<times> bool"
  stamp_remove :: "string \<times> bool"
  analysis_result :: "candidate list option"
  images_list :: "string \<times> bool"
  blank_image_created :: bool
  images_update :: "nat \<Rightarrow> string \<times> bool"

datatype remove_error =
    InvalidElementType string
  | EmbeddedAsRegularContent
  | StampRemoveFailed string
  | WatermarkRemoveFailed string
  | ImageRemovalRequiresIDs
  | AnalyzeFailed
  | ListImagesFailed
  | NoMatchingImages
  | BlankImageFailed
  | CannotIdentifyImage
  | ImageUpdateFailed imageOccurrence string

record run_result =
  returned :: "remove_error option"
  trace :: "action list"
  logs :: "log_msg list"

text \<open>The candidate loop: the occurrences to remove, in order, and the log.\<close>

fun collect_images ::
  "imageOccurrence list \<Rightarrow> string list \<Rightarrow> candidate list
     \<Rightarrow> imageOccurrence list \<times> log_msg list" where
  "collect_images allImageOccurrences selectedIDs [] = ([], [])"
| "collect_images allImageOccurrences selectedIDs (c # rest) =
     (case collect_images allImageOccurrences selectedIDs rest of
        (imgs, msgs) \<Rightarrow>
          if cID c \<in> set selectedIDs
          then (resolve_occurrences allImageOccurrences c @ imgs,
                resolve_logs allImageOccurrences c @ msgs)
          else (imgs, msgs))"

text \<open>The update chain. \<open>i\<close> is the loop index, \<open>n\<close> the number of images,
  \<open>tempFiles\<close> the intermediate files made so far. The selector is the object number,
  or "page id" when the object number is empty.\<close>

fun update_chain ::
  "(nat \<Rightarrow> string \<times> bool) \<Rightarrow> nat \<Rightarrow> nat \<Rightarrow> file_path \<Rightarrow> file_path list
     \<Rightarrow> imageOccurrence list \<Rightarrow> remove_error option \<times> action list" where
  "update_chain upd n i currentFile tempFiles [] =
     (None, map RemoveFile tempFiles)"
| "update_chain upd n i currentFile tempFiles (img # rest) =
     (let tempFile = (if i = n - 1 then OutFile else TempFile i);
          tempFiles' = (if i = n - 1 then tempFiles else tempFiles @ [TempFile i])
      in if occ_obj img \<noteq> [] \<or> (occ_page img > 0 \<and> occ_id img \<noteq> []) then
           (let sel = (if occ_obj img \<noteq> [] then occ_obj img
                       else show_int (occ_page img) @ '' '' @ occ_id img);
                call = RunImagesUpdate currentFile tempFile sel
            in if \<not> snd (upd i)
               then (Some (ImageUpdateFailed img (fst (upd i))),
                     call # map RemoveFile tempFiles')
               else (case update_chain upd n (Suc i)
                            (if i < n - 1 then tempFile else currentFile) tempFiles' rest of
                       (r, acts) \<Rightarrow> (r, call # acts)))
         else (Some CannotIdentifyImage, map RemoveFile tempFiles'))"

definition removeImagesByIDs :: "environment \<Rightarrow> string list \<Rightarrow> run_result" where
  "removeImagesByIDs env elementIDs =
     (case analysis_result env of
        None \<Rightarrow> \<lparr>returned = Some AnalyzeFailed, trace = [RunAnalyze], logs = []\<rparr>
      | Some imageCandidates \<Rightarrow>
          if \<not> snd (images_list env)
          then \<lparr>returned = Some ListImagesFailed, trace = [RunAnalyze, RunImagesList],
                logs = []\<rparr>
          else
            (case collect_images (parse_occurrences (fst (images_list env)))
                    (map str_TrimSpace elementIDs) imageCandidates of
               (imagesToRemove, msgs) \<Rightarrow>
                 if length imagesToRemove = 0
                 then \<lparr>returned = Some NoMatchingImages,
                       trace = [RunAnalyze, RunImagesList], logs = msgs\<rparr>
                 else if \<not> blank_image_created env
                 then \<lparr>returned = Some BlankImageFailed,
                       trace = [RunAnalyze, RunImagesList, CreateBlankImage], logs = msgs\<rparr>
                 else
                   (case update_chain (images_update env) (length imagesToRemove) 0 InFile []
                           imagesToRemove of
                      (r, acts) \<Rightarrow>
                        \<lparr>returned = r,
                         trace = [RunAnalyze, RunImagesList, CreateBlankImage] @ acts
                                 @ [RemoveFile BlankImage],
                         logs = msgs\<rparr>)))"

definition RemoveElementsByIDs :: "environment \<Rightarrow> string \<Rightarrow> string list \<Rightarrow> run_result" where
  "RemoveElementsByIDs env elementType elementIDs =
     (if elementType \<noteq> ''watermark'' \<and> elementType \<noteq> ''image''
      then \<lparr>returned = Some (InvalidElementType elementType), trace = [], logs = []\<rparr>
      else if elementType = ''watermark'' then
        (case watermark_remove env of
           (output, ok) \<Rightarrow>
             if ok
             then \<lparr>returned = None, trace = [RunWatermarkRemove],
                   logs = (if output \<noteq> [] then [LogWatermarkOutput output] else [])\<rparr>
             else if str_Contains output ''no watermarks found''
                     \<or> str_Contains output ''no stamps found''
             then (case stamp_remove env of
                     (stampOutput, stampOk) \<Rightarrow>
                       if stampOk
                       then \<lparr>returned = None, trace = [RunWatermarkRemove, RunStampRemove],
                             logs = LogTryingStampRemove
                                    # (if stampOutput \<noteq> [] then [LogStampOutput stampOutput]
                                       else [])\<rparr>
                       else if str_Contains stampOutput ''no stamps found''
                       then \<lparr>returned = Some EmbeddedAsRegularContent,
                             trace = [RunWatermarkRemove, RunStampRemove],
                             logs = [LogTryingStampRemove]\<rparr>
                       else \<lparr>returned = Some (StampRemoveFailed stampOutput),
                             trace = [RunWatermarkRemove, RunStampRemove],
                             logs = [LogTryingStampRemove]\<rparr>)
             else \<lparr>returned = Some (WatermarkRemoveFailed output),
                   trace = [RunWatermarkRemove], logs = []\<rparr>)
      else if length elementIDs = 0
      then \<lparr>returned = Some ImageRemovalRequiresIDs, trace = [], logs = []\<rparr>
      else removeImagesByIDs env elementIDs)"






text \<open>A listing in which the image has another id than at analysis time.\<close>

definition listing_renamed_image :: string where
  "listing_renamed_image = ''Page Obj ID'' @ [CHR 0x0A] @ ''1 12 Im-7 image''"



section \<open>Properties of the string functions\<close>

lemma str_HasPrefix_single: "str_HasPrefix (x # xs) [c] = (x = c)"
  by (simp add: str_HasPrefix_def)

lemma str_Contains_single: "str_Contains s [c] = (c \<in> set s)"
  by (induction s) (auto simp: str_HasPrefix_single)

lemma split_acc_single_length:
  "length (split_acc [c] acc s) = Suc (length (filter (\<lambda>x. x = c) s))"
  by (induction s arbitrary: acc) (simp_all add: str_HasPrefix_single)

lemma split_acc_single_first:
  "split_acc [c] acc s ! 0 = acc @ takeWhile (\<lambda>x. x \<noteq> c) s"
  by (induction s arbitrary: acc) (simp_all add: str_HasPrefix_single)

lemma str_Split_single_more: "(Suc 0 < length (str_Split s [c])) = (c \<in> set s)"
proof -
  have "(filter (\<lambda>x. x = c) s \<noteq> []) = (c \<in> set s)"
    by (induction s) auto
  then show ?thesis
    by (simp add: str_Split_def split_acc_single_length)
qed

lemma str_Split_single_first: "str_Split s [c] ! 0 = takeWhile (\<lambda>x. x \<noteq> c) s"
  by (simp add: str_Split_def split_acc_single_first)

lemma distinct_remdups_adj_sorted: "sorted (xs :: int list) \<Longrightarrow> distinct (remdups_adj xs)"
  by (induction xs rule: remdups_adj.induct) auto

section \<open>Page specifiers\<close>

text \<open>
  Claim C9. \<open>ParsePageSpecifier\<close> returns [1,3,5,6,7] on "1,3,5-7", [5] on "5-5", an
  error on "3-1" and on the empty string, [1,2] on "1,1,2"; and whenever it returns a
  list, the list is sorted ascending and has no duplicates.
\<close>

theorem ParsePageSpecifier_examples_sorted_distinct:
  "ParsePageSpecifier ''1,3,5-7'' = Returned [1, 3, 5, 6, 7]
   \<and> ParsePageSpecifier ''5-5'' = Returned [5]
   \<and> ParsePageSpecifier ''3-1'' = Failed (StartAfterEnd 3 1)
   \<and> ParsePageSpecifier [] = Failed EmptySpecification
   \<and> ParsePageSpecifier ''1,1,2'' = Returned [1, 2]
   \<and> (\<forall>s xs. ParsePageSpecifier s = Returned xs \<longrightarrow> sorted xs \<and> distinct xs)"
proof -
  have e1: "ParsePageSpecifier ''1,3,5-7'' = Returned [1, 3, 5, 6, 7]" by code_simp
  have e2: "ParsePageSpecifier ''5-5'' = Returned [5]" by code_simp
  have e3: "ParsePageSpecifier ''3-1'' = Failed (StartAfterEnd 3 1)" by code_simp
  have e4: "ParsePageSpecifier [] = Failed EmptySpecification"
    by (simp add: ParsePageSpecifier_def)
  have e5: "ParsePageSpecifier ''1,1,2'' = Returned [1, 2]" by code_simp
  have g: "sorted xs \<and> distinct xs" if "ParsePageSpecifier s = Returned xs" for s xs
  proof -
    from that obtain pageList where "xs = remdups_adj (sort pageList)"
      by (auto simp: ParsePageSpecifier_def split: if_splits outcome.splits)
    then show ?thesis
      by (simp add: distinct_remdups_adj_sorted)
  qed
  from e1 e2 e3 e4 e5 g show ?thesis by blast
qed

theorem ParsePageSpecifier_examples_sorted_distinct_witness:
  "ParsePageSpecifier ''7,2-4,3'' = Returned [2, 3, 4, 7]
   \<and> sorted [2, 3, 4, 7 :: int] \<and> distinct [2, 3, 4, 7 :: int]"
proof -
  have r: "ParsePageSpecifier ''7,2-4,3'' = Returned [2, 3, 4, 7]" by code_simp
  from ParsePageSpecifier_examples_sorted_distinct r
  have "sorted [2, 3, 4, 7 :: int] \<and> distinct [2, 3, 4, 7 :: int]" by blast
  with r show ?thesis by simp
qed

section \<open>Image-identifier prefixes\<close>

text \<open>
  Claim C7, as stated, fails: \<open>extractIdPrefix\<close> splits at \<open>-\<close> only. For the identifier
  \<open>ab_cd\<close>, which starts with no known literal, the text before the first delimiter is
  \<open>ab\<close>, and the function returns the first three bytes \<open>ab_\<close>.
\<close>

theorem extractIdPrefix_underscore_counterexample:
  "\<not> known_literal ''ab_cd'' \<and> spec_prefix ''ab_cd'' = ''ab''
   \<and> extractIdPrefix ''ab_cd'' = ''ab_''"
  by code_simp

text \<open>
  Claim C7, amended. For an identifier that starts with no known literal, the prefix is
  the text before the first \<open>-\<close> when the identifier contains a \<open>-\<close> and does not start
  with it; otherwise the first three bytes of an identifier of three to five bytes, the
  first five bytes of a longer one, and \<open>unknown\<close> for an identifier shorter than three.
  An underscore is not a delimiter.
\<close>

theorem extractIdPrefix_dash_rule:
  assumes "\<not> known_literal ident"
  shows "extractIdPrefix ident =
     (if CHR ''-'' \<in> set ident \<and> takeWhile (\<lambda>c. c \<noteq> CHR ''-'') ident \<noteq> []
      then takeWhile (\<lambda>c. c \<noteq> CHR ''-'') ident
      else if length ident \<ge> 3 then take (if length ident > 5 then 5 else 3) ident
      else ''unknown'')"
  using assms
  by (simp add: extractIdPrefix_def known_literal_def str_Contains_single
      str_Split_single_more str_Split_single_first)

theorem extractIdPrefix_dash_rule_witness:
  "\<not> known_literal ''ab-cd_e'' \<and> extractIdPrefix ''ab-cd_e'' = ''ab''"
proof -
  have k: "\<not> known_literal ''ab-cd_e''" by code_simp
  from extractIdPrefix_dash_rule [OF k] show ?thesis using k by simp
qed

section \<open>Removal by candidate IDs\<close>

text \<open>
  Claim C10. For element type "image", \<open>RemoveElementsByIDs\<close> called with no selected
  candidate IDs returns an error at once: no external tool is run and no file is created,
  changed or removed (the trace of calls is empty), whatever the environment. So the
  selective removal is only ever entered with at least one ID.
\<close>

theorem RemoveElementsByIDs_image_needs_ids:
  "RemoveElementsByIDs env ''image'' [] =
     \<lparr>returned = Some ImageRemovalRequiresIDs, trace = [], logs = []\<rparr>"
  by (simp add: RemoveElementsByIDs_def)

lemma add_occurrences_lookup:
  "(case add_occurrences occs m k of None \<Rightarrow> [] | Some l \<Rightarrow> l) =
   (case m k of None \<Rightarrow> [] | Some l \<Rightarrow> l) @ filter (\<lambda>occ. occ_id occ = k) occs"
  by (induction occs arbitrary: m) auto

lemma strategy_exact_filter:
  "strategy_exact (add_occurrences occs Map.empty) imgID =
   (if imgID \<noteq> [] then filter (\<lambda>occ. occ_id occ = imgID) occs else [])"
  using add_occurrences_lookup [of occs Map.empty imgID]
  by (simp add: strategy_exact_def)






lemma resolve_by_stored_prefix:
  assumes "\<forall>occ \<in> set occs. occ_id occ \<noteq> md_get (cMetadata c) ''image_id''"
    and "md_get (cMetadata c) ''prefix'' \<noteq> []"
    and "\<exists>occ \<in> set occs. prefix_matches (md_get (cMetadata c) ''prefix'') occ"
  shows "resolve_occurrences occs c =
           filter (prefix_matches (md_get (cMetadata c) ''prefix'')) occs
         \<and> found_after_exact occs c = []
         \<and> found_after_signature occs c = found_after_prefix occs c
         \<and> resolve_logs occs c =
             [LogFoundByPrefix (length (resolve_occurrences occs c))
                (md_get (cMetadata c) ''prefix'') (cID c),
              LogTotalOccurrences (cID c) (length (resolve_occurrences occs c))]"
proof -
  let ?p = "md_get (cMetadata c) ''prefix''"
  have f1: "found_after_exact occs c = []"
    using assms(1) by (auto simp: found_after_exact_def strategy_exact_filter filter_empty_conv)
  have ne: "filter (prefix_matches ?p) occs \<noteq> []"
    using assms(3) by (auto simp: filter_empty_conv)
  have f2: "found_after_prefix occs c = filter (prefix_matches ?p) occs"
    using f1 assms(2) by (simp add: found_after_prefix_def strategy_prefix_def)
  have f3: "found_after_signature occs c = filter (prefix_matches ?p) occs"
    using f2 ne by (simp add: found_after_signature_def strategy_signature_def)
  have f4: "resolve_occurrences occs c = filter (prefix_matches ?p) occs"
    using f3 ne by (simp add: resolve_occurrences_def strategy_single_def)
  have lg: "resolve_logs occs c =
             [LogFoundByPrefix (length (filter (prefix_matches ?p) occs)) ?p (cID c),
              LogTotalOccurrences (cID c) (length (filter (prefix_matches ?p) occs))]"
    using f1 f2 f3 f4 ne assms(2) by (simp add: resolve_logs_def Let_def)
  from f1 f2 f3 f4 lg show ?thesis by simp
qed








section \<open>Go maps as association lists: grouping\<close>

lemma map_of_map_append:
  "map_of (map_append k v m) k' =
     (if k' = k then Some (map_lookup m k @ [v]) else map_of m k')"
proof (cases "k \<in> set (map fst m)")
  case True
  have "map_of (map (\<lambda>(a, vs). if a = k then (a, vs @ [v]) else (a, vs)) m) k' =
        (if k' = k then map_option (\<lambda>vs. vs @ [v]) (map_of m k') else map_of m k')"
    by (induction m) auto
  moreover from True obtain vs where "map_of m k = Some vs"
    by (metis map_of_eq_None_iff not_Some_eq set_map)
  ultimately show ?thesis
    using True by (simp add: map_append_def map_lookup_def)
next
  case False
  then have "map_of m k = None"
    by (simp add: map_of_eq_None_iff)
  then show ?thesis
    using False by (auto simp: map_append_def map_lookup_def map_add_def split: option.splits)
qed

lemma map_lookup_map_append:
  "map_lookup (map_append k v m) k' =
     (if k' = k then map_lookup m k @ [v] else map_lookup m k')"
  by (simp add: map_lookup_def map_of_map_append)

lemma keys_map_append:
  "map fst (map_append k v m) = (if k \<in> set (map fst m) then map fst m else map fst m @ [k])"
  by (auto simp: map_append_def comp_def case_prod_unfold intro!: map_cong)

lemma distinct_map_append:
  "distinct (map fst m) \<Longrightarrow> distinct (map fst (map_append k v m))"
  by (simp add: keys_map_append)

lemma group_lookup:
  "map_lookup (foldl (\<lambda>m x. if keep x then map_append (key x) (val x) m else m) m0 xs) k =
   map_lookup m0 k @ map val (filter (\<lambda>x. keep x \<and> key x = k) xs)"
  by (induction xs arbitrary: m0) (auto simp: map_lookup_map_append)

lemma group_distinct:
  "distinct (map fst m0) \<Longrightarrow>
   distinct (map fst (foldl (\<lambda>m x. if keep x then map_append (key x) (val x) m else m) m0 xs))"
  by (induction xs arbitrary: m0) (auto simp: distinct_map_append)

lemma key_set_map_append:
  "fst ` set (map_append k v m) = insert k (fst ` set m)"
proof -
  have "set (map fst (map_append k v m)) = insert k (set (map fst m))"
    by (simp only: keys_map_append) auto
  then show ?thesis by simp
qed

lemma group_keys:
  "fst ` set (foldl (\<lambda>m x. if keep x then map_append (key x) (val x) m else m) m0 xs) =
   fst ` set m0 \<union> key ` {x \<in> set xs. keep x}"
  by (induction xs arbitrary: m0) (auto simp: key_set_map_append)

lemma group_entry:
  "((k, vs) \<in> set (foldl (\<lambda>m x. if keep x then map_append (key x) (val x) m else m) [] xs)) =
   (vs = map val (filter (\<lambda>x. keep x \<and> key x = k) xs) \<and> vs \<noteq> [])"
  (is "((k, vs) \<in> set ?G) = ?R")
proof
  assume m: "(k, vs) \<in> set ?G"
  have d: "distinct (map fst ?G)" by (rule group_distinct) simp
  from m d have "map_of ?G k = Some vs" by simp
  then have "map_lookup ?G k = vs" by (simp add: map_lookup_def)
  then have v: "vs = map val (filter (\<lambda>x. keep x \<and> key x = k) xs)"
    using group_lookup [of keep key val "[]" xs k] by (simp add: map_lookup_def)
  from m have "k \<in> fst ` set ?G" by force
  then have "\<exists>x \<in> set xs. keep x \<and> key x = k"
    using group_keys [of keep key val "[]" xs] by auto
  then have "filter (\<lambda>x. keep x \<and> key x = k) xs \<noteq> []"
    by (auto simp: filter_empty_conv)
  with v show ?R by simp
next
  assume r: ?R
  then have "\<exists>x \<in> set xs. keep x \<and> key x = k"
    by (auto simp: filter_empty_conv)
  then have "k \<in> fst ` set ?G"
    using group_keys [of keep key val "[]" xs] by auto
  then obtain vs' where m: "(k, vs') \<in> set ?G" by auto
  have d: "distinct (map fst ?G)" by (rule group_distinct) simp
  from m d have "map_of ?G k = Some vs'" by simp
  then have "map_lookup ?G k = vs'" by (simp add: map_lookup_def)
  then have "vs' = map val (filter (\<lambda>x. keep x \<and> key x = k) xs)"
    using group_lookup [of keep key val "[]" xs k] by (simp add: map_lookup_def)
  with r m show "(k, vs) \<in> set ?G" by simp
qed


declare show_nat.simps [simp del]








lemma prefix_groups_entry:
  "((p, v) \<in> set (build_imagesByPrefix flat)) =
   (v = filter (\<lambda>x. extractIdPrefix (img_id (iwp_img x)) \<noteq> ''unknown''
                     \<and> extractIdPrefix (img_id (iwp_img x)) = p) flat \<and> v \<noteq> [])"
  using group_entry [of p v "\<lambda>x. extractIdPrefix (img_id (iwp_img x)) \<noteq> ''unknown''"
      "\<lambda>x. extractIdPrefix (img_id (iwp_img x))" "\<lambda>x. x" flat]
  by (simp add: build_imagesByPrefix_def)








lemma extractIdPrefix_nonempty: "extractIdPrefix ident \<noteq> []"
  by (auto simp: extractIdPrefix_def)

lemma size_group_candidates_prefix:
  "c \<in> set (size_group_candidates p N e) \<Longrightarrow> md_get (cMetadata c) ''prefix'' = p"
  by (cases e) (auto simp: size_group_candidates_def Let_def md_get_def split: if_splits)

lemma signature_candidates_no_pages: "signature_candidates tbl N handled (sg, []) = []"
  by (simp add: signature_candidates_def)

lemma signature_candidates_some:
  assumes "sg \<notin> set handled"
    and "int (length (fp # rest)) \<ge> min_pages N
         \<or> hasContinuousRange (fp # rest) (min_pages N)"
  shows "\<exists>c. signature_candidates tbl N handled (sg, fp # rest) = [c]
             \<and> map_of (cMetadata c) ''prefix'' =
                 Some (extractIdPrefix (img_id (first_image tbl sg fp)))"
  using assms
  apply (simp only: signature_candidates_def prod.case list.case if_True if_False Let_def)
  apply (simp only: list.inject simp_thms ex_simps candidate.simps)
  apply simp
  done

lemma signature_candidates_none:
  assumes "\<not> (sg \<notin> set handled \<and> (int (length pages) \<ge> min_pages N
                  \<or> hasContinuousRange pages (min_pages N)))"
  shows "signature_candidates tbl N handled (sg, pages) = []"
  using assms by (cases "sg \<in> set handled") (simp_all add: signature_candidates_def)

lemma signature_candidates_prefix:
  assumes "c \<in> set (signature_candidates tbl N handled e)"
  shows "md_get (cMetadata c) ''prefix'' \<noteq> []"
proof -
  obtain sg pages where e: "e = (sg, pages)" by (cases e)
  show ?thesis
  proof (cases "sg \<notin> set handled \<and> (int (length pages) \<ge> min_pages N
                  \<or> hasContinuousRange pages (min_pages N))")
    case True
    show ?thesis
    proof (cases pages)
      case Nil
      from assms show ?thesis
        unfolding e Nil by (simp add: signature_candidates_no_pages)
    next
      case (Cons firstPage rest)
      from True Cons obtain c' where
        "signature_candidates tbl N handled (sg, firstPage # rest) = [c']"
        and "map_of (cMetadata c') ''prefix'' =
                 Some (extractIdPrefix (img_id (first_image tbl sg firstPage)))"
        using signature_candidates_some [where sg=sg and handled=handled and fp=firstPage
            and rest=rest and N=N and tbl=tbl] by auto
      with assms e Cons show ?thesis
        by (simp add: md_get_def extractIdPrefix_nonempty)
    qed
  next
    case False
    from assms show ?thesis
      unfolding e by (simp add: signature_candidates_none [OF False])
  qed
qed

lemma analysis_prefix_nonempty:
  assumes vo: "valid_orders ord" and c: "c \<in> set (analyze_table ord tbl N)"
  shows "md_get (cMetadata c) ''prefix'' \<noteq> []"
proof -
  let ?flat = "images_in_order ord tbl"
  from c consider (A) "c \<in> set (pass_A ord tbl N)" | (B) "c \<in> set (pass_B ord tbl N)"
    by (auto simp: analyze_table_def)
  then show ?thesis
  proof cases
    case A
    then obtain p v where pv: "(p, v) \<in> set (prefix_order ord (build_imagesByPrefix ?flat))"
      and cp: "c \<in> set (prefix_group_candidates ord N (p, v))"
      by (auto simp: pass_A_def detectFullPageUnwantedElements_def)
    from cp obtain e where "c \<in> set (size_group_candidates p N e)"
      by (auto simp: prefix_group_candidates_def split: if_splits)
    then have mp: "md_get (cMetadata c) ''prefix'' = p"
      by (rule size_group_candidates_prefix)
    have "set (prefix_order ord (build_imagesByPrefix ?flat)) = set (build_imagesByPrefix ?flat)"
      using vo unfolding valid_orders_def by (metis mset_eq_setD)
    with pv have "(p, v) \<in> set (build_imagesByPrefix ?flat)" by simp
    then have "v = filter (\<lambda>x. extractIdPrefix (img_id (iwp_img x)) \<noteq> ''unknown''
                     \<and> extractIdPrefix (img_id (iwp_img x)) = p) ?flat \<and> v \<noteq> []"
      using prefix_groups_entry [of p v ?flat] by blast
    then have "\<exists>i. p = extractIdPrefix i"
      by (auto simp: filter_empty_conv)
    with mp show ?thesis by (metis extractIdPrefix_nonempty)
  next
    case B
    then obtain e h where "c \<in> set (signature_candidates tbl N h e)"
      by (auto simp: pass_B_def)
    then show ?thesis by (rule signature_candidates_prefix)
  qed
qed

section \<open>Row splitting\<close>







section \<open>Candidate detection\<close>

text \<open>
  Claim C1 at a document of five pages with one 35KB image of prefix \<open>Logo\<close> on each of
  the pages 1 to 4: the only size group of the prefix has four images on four distinct
  pages, and 4/5 meets the coverage threshold, but Pass A emits no candidate, in either
  iteration order. The size-group loop first skips every group with fewer images than
  the document has pages.
\<close>

theorem pass_A_skips_threshold_group:
  "map (\<lambda>(sizeKey, sizeGroup). (sizeKey, length sizeGroup, pages_covered sizeGroup))
     (size_groups (map_lookup
        (build_imagesByPrefix (images_in_order insertion_orders (parsed_table doc_logo_4_of_5)))
        ''Logo'')) = [(''35KB'', 4, 4)]
   \<and> float_ge (float_div 4 5) MinPageCoverageThreshold
   \<and> pass_A insertion_orders (parsed_table doc_logo_4_of_5) 5 = []
   \<and> pass_A reversed_orders (parsed_table doc_logo_4_of_5) 5 = []"
  by code_simp

text \<open>
  Claim C2 at a document of two pages with one small image on each: the one candidate is
  a Pass B candidate, and its \<open>image_id\<close> and \<open>object\<close> are empty, although every image
  of the table has an id and an object. Pass B compares the signature with a string
  built without the \<open>_prefix:\<close> part, so it never finds its representative.
\<close>

theorem pass_B_representative_empty:
  "map (\<lambda>c. (md_get (cMetadata c) ''type'', md_get (cMetadata c) ''image_id'',
              md_get (cMetadata c) ''object''))
     (analyzeImages insertion_orders doc_small_2_of_2 2) =
     [(''repeating_unwanted_element'', [], [])]
   \<and> map (\<lambda>(page, img). (page, img_id img, img_obj img))
       (parse_image_lines (str_Split doc_small_2_of_2 [CHR 0x0A]) False) =
     [(1, ''Pic-1'', ''21''), (2, ''Pic-2'', ''22'')]"
  by code_simp

text \<open>
  Claim C3 at a document of two pages whose images share prefix and size key and differ
  in dimensions: visiting the pages in the two possible orders gives different candidate
  IDs. And at a document of three pages with one image on each: the page list of the
  signature is in visiting order, and the contiguous-range test holds for one order and
  fails for the other.
\<close>

theorem analysis_depends_on_map_order:
  "valid_orders insertion_orders \<and> valid_orders reversed_orders
   \<and> map cID (analyzeImages insertion_orders doc_two_dims 2) =
       [''fullpage_watermark_Im_35KB'', ''repeating_unwanted_element_200x200_'']
   \<and> map cID (analyzeImages reversed_orders doc_two_dims 2) =
       [''fullpage_watermark_Im_35KB'', ''repeating_unwanted_element_100x100_'']
   \<and> map snd (build_imageSignatures
                (images_in_order insertion_orders (parsed_table doc_three_pages))) =
       [[1, 2, 3]]
   \<and> map snd (build_imageSignatures
                (images_in_order reversed_orders (parsed_table doc_three_pages))) =
       [[3, 2, 1]]
   \<and> hasContinuousRange [1, 2, 3] 3 \<and> \<not> hasContinuousRange [3, 2, 1] 3"
proof -
  have v: "valid_orders insertion_orders \<and> valid_orders reversed_orders"
    by (simp add: valid_orders_def insertion_orders_def reversed_orders_def)
  have a: "map cID (analyzeImages insertion_orders doc_two_dims 2) =
       [''fullpage_watermark_Im_35KB'', ''repeating_unwanted_element_200x200_'']"
    by code_simp
  have b: "map cID (analyzeImages reversed_orders doc_two_dims 2) =
       [''fullpage_watermark_Im_35KB'', ''repeating_unwanted_element_100x100_'']"
    by code_simp
  have c: "map snd (build_imageSignatures
                (images_in_order insertion_orders (parsed_table doc_three_pages))) =
       [[1, 2, 3]]"
    by code_simp
  have d: "map snd (build_imageSignatures
                (images_in_order reversed_orders (parsed_table doc_three_pages))) =
       [[3, 2, 1]]"
    by code_simp
  have e: "hasContinuousRange [1, 2, 3] 3 \<and> \<not> hasContinuousRange [3, 2, 1] 3"
    by code_simp
  from v a b c d e show ?thesis by blast
qed

section \<open>Pass A on a group that covers every page\<close>



section \<open>Resolution of a candidate of the analysis\<close>

text \<open>
  Claim C4. Take a candidate of an analysis (any iteration order, any listing, any page
  count) whose stored image id is the id of no occurrence of the freshly parsed table,
  and whose stored prefix matches at least one occurrence (as a direct prefix, with a
  \<open>-\<close> or \<open>_\<close> suffix, or by equality with the occurrence's own extracted prefix). It
  resolves to exactly the prefix-matching occurrences, in table order. Strategy b
  fires: the log holds the prefix message and the total, and neither the signature
  strategy nor the single-occurrence strategy adds or logs anything.
\<close>

theorem resolve_falls_through_to_prefix:
  assumes "valid_orders ord"
    and "c \<in> set (analyzeImages ord output totalPages)"
    and "\<forall>occ \<in> set occs. occ_id occ \<noteq> md_get (cMetadata c) ''image_id''"
    and "\<exists>occ \<in> set occs. prefix_matches (md_get (cMetadata c) ''prefix'') occ"
  shows "resolve_occurrences occs c =
           filter (prefix_matches (md_get (cMetadata c) ''prefix'')) occs
         \<and> found_after_exact occs c = []
         \<and> found_after_signature occs c = found_after_prefix occs c
         \<and> resolve_logs occs c =
             [LogFoundByPrefix (length (resolve_occurrences occs c))
                (md_get (cMetadata c) ''prefix'') (cID c),
              LogTotalOccurrences (cID c) (length (resolve_occurrences occs c))]"
proof -
  from assms(1,2) have "md_get (cMetadata c) ''prefix'' \<noteq> []"
    unfolding analyzeImages_def by (rule analysis_prefix_nonempty)
  with assms(3,4) show ?thesis
    by (intro resolve_by_stored_prefix)
qed

theorem resolve_falls_through_to_prefix_witness:
  "resolve_occurrences (parse_occurrences listing_renamed_image)
     (hd (analyzeImages insertion_orders doc_two_dims 2)) =
     [\<lparr>occ_page = 1, occ_obj = ''12'', occ_id = ''Im-7''\<rparr>]"
proof -
  let ?A = "analyzeImages insertion_orders doc_two_dims 2"
  have "map (\<lambda>c. (md_get (cMetadata c) ''image_id'', md_get (cMetadata c) ''prefix'')) ?A =
        [(''Im-1'', ''Im''), ([], ''unknown'')]"
    by code_simp
  then obtain c1 c2 where a: "?A = [c1, c2]"
    and img: "md_get (cMetadata c1) ''image_id'' = ''Im-1''"
    and pre: "md_get (cMetadata c1) ''prefix'' = ''Im''"
    by (auto simp: map_eq_Cons_conv)
  have occs: "parse_occurrences listing_renamed_image =
      [\<lparr>occ_page = 1, occ_obj = ''12'', occ_id = ''Im-7''\<rparr>]"
    by code_simp
  have m: "prefix_matches ''Im'' \<lparr>occ_page = 1, occ_obj = ''12'', occ_id = ''Im-7''\<rparr>"
    by code_simp
  have h1: "valid_orders insertion_orders"
    by (simp add: valid_orders_def insertion_orders_def)
  have h2: "hd ?A \<in> set ?A" by (simp add: a)
  have h3: "\<forall>occ \<in> set (parse_occurrences listing_renamed_image).
              occ_id occ \<noteq> md_get (cMetadata (hd ?A)) ''image_id''"
    by (simp add: occs a img)
  have h4: "\<exists>occ \<in> set (parse_occurrences listing_renamed_image).
              prefix_matches (md_get (cMetadata (hd ?A)) ''prefix'') occ"
    using m by (simp add: occs a pre)
  from resolve_falls_through_to_prefix [OF h1 h2 h3 h4] show ?thesis
    using m by (simp add: occs a pre)
qed

end
